theory Spec2Isabelle
  imports Complex_Main
begin

section \<open>Numbers, vectors and matrices\<close>

text \<open>
  The spot light of \<^verbatim>\<open>src/Lights/babylon.spotLight.ts\<close> computes with JavaScript
  numbers. They are modelled as reals, so rounding is left out. A JavaScript division by
  zero gives an infinity or NaN and does not raise, where the division of HOL gives 0: the
  statements below that give the value of a matrix entry or of a coordinate are made for
  lights on which no divisor is 0, and the others relate two expressions built from the
  same divisions. What the build stores when a divisor is 0 is modelled apart, over
  numbers that may not be finite (\<open>computeTextureMatrixJS\<close>).
\<close>

datatype Vector3 = Vector3 (vx: real) (vy: real) (vz: real)

text \<open>
  Modelled from the spec: the vector helpers of the math library (\<^verbatim>\<open>Vector3.add\<close>,
  \<^verbatim>\<open>Vector3.Up\<close>, \<^verbatim>\<open>Vector3.Normalize\<close>, dot and cross product) are not in the
  source tree. The spec has the direction "normalized on use" and the world up vector
  \<open>(0,1,0)\<close>; a vector of length 0 or 1 is returned as it is.
\<close>

definition add :: "Vector3 \<Rightarrow> Vector3 \<Rightarrow> Vector3" where
  "add a b = Vector3 (vx a + vx b) (vy a + vy b) (vz a + vz b)"

definition subtract :: "Vector3 \<Rightarrow> Vector3 \<Rightarrow> Vector3" where
  "subtract a b = Vector3 (vx a - vx b) (vy a - vy b) (vz a - vz b)"

definition scale :: "real \<Rightarrow> Vector3 \<Rightarrow> Vector3" where
  "scale k a = Vector3 (vx a * k) (vy a * k) (vz a * k)"

definition Up :: Vector3 where
  "Up = Vector3 0 1 0"

definition Dot :: "Vector3 \<Rightarrow> Vector3 \<Rightarrow> real" where
  "Dot a b = vx a * vx b + vy a * vy b + vz a * vz b"

definition Cross :: "Vector3 \<Rightarrow> Vector3 \<Rightarrow> Vector3" where
  "Cross a b = Vector3 (vy a * vz b - vz a * vy b)
                       (vz a * vx b - vx a * vz b)
                       (vx a * vy b - vy a * vx b)"

definition lengthSquared :: "Vector3 \<Rightarrow> real" where
  "lengthSquared a = vx a * vx a + vy a * vy a + vz a * vz a"

definition length_v :: "Vector3 \<Rightarrow> real" where
  "length_v a = sqrt (lengthSquared a)"

definition Normalize :: "Vector3 \<Rightarrow> Vector3" where
  "Normalize a =
     (let len = length_v a in
      if len = 0 \<or> len = 1 then a else scale (1 / len) a)"

text \<open>
  A matrix holds sixteen numbers \<open>m[0] .. m[15]\<close>, row after row;
  \<^verbatim>\<open>Matrix.FromValuesToRef\<close> fills them in that order, so the constructor \<open>Matrix\<close>
  stands for it, and \<^verbatim>\<open>copyFrom\<close> is the identity on values.
\<close>

datatype Matrix = Matrix
  (m0: real) (m1: real) (m2: real) (m3: real)
  (m4: real) (m5: real) (m6: real) (m7: real)
  (m8: real) (m9: real) (m10: real) (m11: real)
  (m12: real) (m13: real) (m14: real) (m15: real)

definition Zero :: Matrix where
  "Zero = Matrix 0 0 0 0  0 0 0 0  0 0 0 0  0 0 0 0"

text \<open>
  Modelled from the spec: \<^verbatim>\<open>Matrix.multiplyToRef\<close> is not in the source tree. The
  spec composes "row-vector, left-to-right": \<open>multiply a b\<close> is the matrix product
  \<open>a * b\<close>, every entry of both operands read before the result is written (the source
  passes the receiver as the result).
\<close>

definition multiply :: "Matrix \<Rightarrow> Matrix \<Rightarrow> Matrix" where
  "multiply a b = Matrix
     (m0 a * m0 b + m1 a * m4 b + m2 a * m8 b + m3 a * m12 b)
     (m0 a * m1 b + m1 a * m5 b + m2 a * m9 b + m3 a * m13 b)
     (m0 a * m2 b + m1 a * m6 b + m2 a * m10 b + m3 a * m14 b)
     (m0 a * m3 b + m1 a * m7 b + m2 a * m11 b + m3 a * m15 b)
     (m4 a * m0 b + m5 a * m4 b + m6 a * m8 b + m7 a * m12 b)
     (m4 a * m1 b + m5 a * m5 b + m6 a * m9 b + m7 a * m13 b)
     (m4 a * m2 b + m5 a * m6 b + m6 a * m10 b + m7 a * m14 b)
     (m4 a * m3 b + m5 a * m7 b + m6 a * m11 b + m7 a * m15 b)
     (m8 a * m0 b + m9 a * m4 b + m10 a * m8 b + m11 a * m12 b)
     (m8 a * m1 b + m9 a * m5 b + m10 a * m9 b + m11 a * m13 b)
     (m8 a * m2 b + m9 a * m6 b + m10 a * m10 b + m11 a * m14 b)
     (m8 a * m3 b + m9 a * m7 b + m10 a * m11 b + m11 a * m15 b)
     (m12 a * m0 b + m13 a * m4 b + m14 a * m8 b + m15 a * m12 b)
     (m12 a * m1 b + m13 a * m5 b + m14 a * m9 b + m15 a * m13 b)
     (m12 a * m2 b + m13 a * m6 b + m14 a * m10 b + m15 a * m14 b)
     (m12 a * m3 b + m13 a * m7 b + m14 a * m11 b + m15 a * m15 b)"

text \<open>
  Modelled from the spec: \<^verbatim>\<open>Matrix.LookAtLHToRef\<close> is not in the source tree. The
  spec asks for a left-handed look-at matrix from \<open>eye\<close> toward \<open>target\<close> with a
  reference up vector: the z axis is the normalized viewing direction, the x axis the
  normalized \<open>up \<times> z\<close> (the unit x vector when that product vanishes), the y axis the
  normalized \<open>z \<times> x\<close>, and the last row moves \<open>eye\<close> to the origin.
\<close>

definition lookAt_zAxis :: "Vector3 \<Rightarrow> Vector3 \<Rightarrow> Vector3" where
  "lookAt_zAxis eye target = Normalize (subtract target eye)"

definition lookAt_xAxis :: "Vector3 \<Rightarrow> Vector3 \<Rightarrow> Vector3 \<Rightarrow> Vector3" where
  "lookAt_xAxis eye target up =
     (let c = Cross up (lookAt_zAxis eye target) in
      if lengthSquared c = 0 then Vector3 1 (vy c) (vz c) else Normalize c)"

definition lookAt_yAxis :: "Vector3 \<Rightarrow> Vector3 \<Rightarrow> Vector3 \<Rightarrow> Vector3" where
  "lookAt_yAxis eye target up =
     Normalize (Cross (lookAt_zAxis eye target) (lookAt_xAxis eye target up))"

definition LookAtLH :: "Vector3 \<Rightarrow> Vector3 \<Rightarrow> Vector3 \<Rightarrow> Matrix" where
  "LookAtLH eye target up =
     (let zAxis = lookAt_zAxis eye target;
          xAxis = lookAt_xAxis eye target up;
          yAxis = lookAt_yAxis eye target up;
          ex = - Dot xAxis eye;
          ey = - Dot yAxis eye;
          ez = - Dot zAxis eye
      in Matrix (vx xAxis) (vx yAxis) (vx zAxis) 0
                (vy xAxis) (vy yAxis) (vy zAxis) 0
                (vz xAxis) (vz yAxis) (vz zAxis) 0
                ex ey ez 1)"

text \<open>
  Modelled from the spec: \<^verbatim>\<open>Matrix.PerspectiveFovLHToRef\<close> is not in the source tree.
  The spec asks for a left-handed perspective matrix from a vertical field of view, an
  aspect ratio and the near and far planes.
\<close>

definition PerspectiveFovLH :: "real \<Rightarrow> real \<Rightarrow> real \<Rightarrow> real \<Rightarrow> Matrix" where
  "PerspectiveFovLH fov aspect znear zfar =
     (let t = 1 / tan (fov * 0.5) in
      Matrix (t / aspect) 0 0 0
             0 t 0 0
             0 0 (zfar / (zfar - znear)) 1
             0 0 (- (znear * zfar) / (zfar - znear)) 0)"

section \<open>The spot light\<close>

text \<open>
  The fields of \<^verbatim>\<open>SpotLight\<close> that the claims read, under the names of their getters
  (\<open>light_far\<close> is \<^verbatim>\<open>_light_far\<close>, \<open>angle\<close> is \<^verbatim>\<open>_angle\<close>, \<open>textureMatrix\<close>
  is \<^verbatim>\<open>_textureMatrix\<close>, and so on). \<^verbatim>\<open>_shadowAngleScale\<close> has no initial value:
  \<open>None\<close> is JavaScript's \<^verbatim>\<open>undefined\<close>.

  Modelled from the spec: \<open>position\<close>, \<open>direction\<close> and the flag
  \<open>needProjectionMatrixCompute\<close> are storage of the light base class
  \<^verbatim>\<open>ShadowLight\<close>, which is not in the source tree; the spec has position and direction
  as mutable values owned outside the spot light, and a change of the cone angle
  invalidating the shadow-projection matrix.
\<close>

record SpotLight =
  position :: Vector3
  direction :: Vector3
  needProjectionMatrixCompute :: bool
  light_far :: real
  light_near :: real
  angle :: real
  shadowAngleScale :: "real option"
  exponent :: real
  textureMatrix :: Matrix

text \<open>Lines 87 to 96 of the source: the perspective matrix of the light.\<close>

definition projectionLightMatrix :: "SpotLight \<Rightarrow> Matrix" where
  "projectionLightMatrix s =
     (let light_far = light_far s;
          light_near = light_near s;
          P = light_far / (light_far - light_near);
          Q = - P * light_near;
          S = 1.0 / tan (angle s / 2.0);
          A = 1.0
      in Matrix (S / A) 0.0 0.0 0.0
                0.0 S 0.0 0.0
                0.0 0.0 P 1.0
                0.0 0.0 Q 0.0)"

text \<open>Lines 98 to 102.\<close>

definition scaleMatrix :: Matrix where
  "scaleMatrix = Matrix 0.5 0.0 0.0 0.0
                        0.0 0.5 0.0 0.0
                        0.0 0.0 0.5 0.0
                        0.5 0.5 0.5 1.0"

text \<open>Lines 81 and 82.\<close>

definition viewLightMatrix :: "SpotLight \<Rightarrow> Matrix" where
  "viewLightMatrix s = LookAtLH (position s) (add (position s) (direction s)) Up"

text \<open>
  \<^verbatim>\<open>computeTextureMatrix\<close> (lines 55 to 107): the cached matrix is overwritten by
  the view matrix, multiplied by the perspective matrix, multiplied by the scale matrix.
  Nothing else of the light changes, and nothing of the old matrix is read.
\<close>

definition computeTextureMatrix :: "SpotLight \<Rightarrow> SpotLight" where
  "computeTextureMatrix s =
     (let s1 = s\<lparr>textureMatrix := viewLightMatrix s\<rparr>;
          s2 = s1\<lparr>textureMatrix := multiply (textureMatrix s1) (projectionLightMatrix s1)\<rparr>;
          s3 = s2\<lparr>textureMatrix := multiply (textureMatrix s2) scaleMatrix\<rparr>
      in s3)"

text \<open>
  Modelled from the spec: \<^verbatim>\<open>forceProjectionMatrixCompute\<close> belongs to the light base
  class, not in the source tree; it marks the shadow-projection matrix as out of date.
\<close>

definition forceProjectionMatrixCompute :: "SpotLight \<Rightarrow> SpotLight" where
  "forceProjectionMatrixCompute s = s\<lparr>needProjectionMatrixCompute := True\<rparr>"

text \<open>The setters, lines 32 to 35, 48 to 51, 114 to 117, 130 to 133 and 149 to 152.\<close>

definition set_light_far :: "real \<Rightarrow> SpotLight \<Rightarrow> SpotLight" where
  "set_light_far v s = computeTextureMatrix (s\<lparr>light_far := v\<rparr>)"

definition set_light_near :: "real \<Rightarrow> SpotLight \<Rightarrow> SpotLight" where
  "set_light_near v s = computeTextureMatrix (s\<lparr>light_near := v\<rparr>)"

definition set_angle :: "real \<Rightarrow> SpotLight \<Rightarrow> SpotLight" where
  "set_angle v s = forceProjectionMatrixCompute (s\<lparr>angle := v\<rparr>)"

definition set_shadowAngleScale :: "real \<Rightarrow> SpotLight \<Rightarrow> SpotLight" where
  "set_shadowAngleScale v s = forceProjectionMatrixCompute (s\<lparr>shadowAngleScale := Some v\<rparr>)"

definition set_textureMatrix :: "Matrix \<Rightarrow> SpotLight \<Rightarrow> SpotLight" where
  "set_textureMatrix v s = computeTextureMatrix (s\<lparr>textureMatrix := v\<rparr>)"

text \<open>
  Modelled from the spec: position and direction are assigned through the light base
  class, not in the source tree. The class comment of \<^verbatim>\<open>SpotLight\<close> (lines 15 to 18)
  says that changing the direction does not recompute the projection matrix, so both are
  plain assignments.
\<close>

definition set_position :: "Vector3 \<Rightarrow> SpotLight \<Rightarrow> SpotLight" where
  "set_position v s = s\<lparr>position := v\<rparr>"

definition set_direction :: "Vector3 \<Rightarrow> SpotLight \<Rightarrow> SpotLight" where
  "set_direction v s = s\<lparr>direction := v\<rparr>"

text \<open>
  The constructor, lines 166 to 179. \<open>base\<close> is the light as \<^verbatim>\<open>super(name, scene)\<close>
  leaves it; the field initialiser of line 138 runs first.
\<close>

definition SpotLight_new ::
  "SpotLight \<Rightarrow> Vector3 \<Rightarrow> Vector3 \<Rightarrow> real \<Rightarrow> real \<Rightarrow> SpotLight" where
  "SpotLight_new base pos dir ang expo =
     (let s = base\<lparr>textureMatrix := Zero\<rparr>;
          s = set_position pos s;
          s = set_direction dir s;
          s = set_angle ang s;
          s = s\<lparr>exponent := expo\<rparr>;
          s = set_light_far 1000.0 s;
          s = set_light_near (1 / 10 ^ 7) s
      in computeTextureMatrix s)"

section \<open>The shadow projection\<close>

text \<open>
  Modelled from the spec: the active camera of the scene, and \<^verbatim>\<open>getDepthMinZ\<close> and
  \<^verbatim>\<open>getDepthMaxZ\<close> of the light base class, are not in the source tree. The spec has
  the scene give "active camera, or none" and the camera give \<open>depthMinZ\<close> and
  \<open>depthMaxZ\<close>.
\<close>

record Camera =
  depthMinZ :: real
  depthMaxZ :: real

text \<open>
  \<^verbatim>\<open>_setDefaultShadowProjectionMatrix\<close> (lines 199 to 211). \<open>matrix\<close> is the matrix
  the caller passes to be filled; the light and that matrix are returned as the call
  leaves them. The parameters \<^verbatim>\<open>viewMatrix\<close> and \<^verbatim>\<open>renderList\<close> are never read
  and left out. \<^verbatim>\<open>x || 1\<close> is 1 when \<open>x\<close> is undefined or 0.
\<close>

definition orOne :: "real option \<Rightarrow> real" where
  "orOne v = (case v of None \<Rightarrow> 1 | Some k \<Rightarrow> if k = 0 then 1 else k)"

definition setDefaultShadowProjectionMatrix ::
  "SpotLight \<Rightarrow> Camera option \<Rightarrow> Matrix \<Rightarrow> SpotLight \<times> Matrix" where
  "setDefaultShadowProjectionMatrix s activeCamera matrix =
     (case activeCamera of
        None \<Rightarrow> (s, matrix)
      | Some cam \<Rightarrow>
          (let s1 = s\<lparr>shadowAngleScale := Some (orOne (shadowAngleScale s))\<rparr>;
               angle' = the (shadowAngleScale s1) * angle s1
           in (s1, PerspectiveFovLH angle' 1.0 (depthMinZ cam) (depthMaxZ cam))))"

section \<open>The uniform buffer\<close>

text \<open>
  Modelled from the spec: the uniform buffer and the effect are the "uniform sink" of the
  spec, not in the source tree: a list of declared slots (name and component count), and
  the writes in the order they are made.
\<close>

record UniformBuffer =
  uniforms :: "(string \<times> nat) list"
  created :: bool
  updates :: "(string \<times> real list \<times> string) list"

definition addUniform :: "string \<Rightarrow> nat \<Rightarrow> UniformBuffer \<Rightarrow> UniformBuffer" where
  "addUniform name sz ub = ub\<lparr>uniforms := uniforms ub @ [(name, sz)]\<rparr>"

definition create :: "UniformBuffer \<Rightarrow> UniformBuffer" where
  "create ub = ub\<lparr>created := True\<rparr>"

definition updateFloat4 ::
  "string \<Rightarrow> real \<Rightarrow> real \<Rightarrow> real \<Rightarrow> real \<Rightarrow> string \<Rightarrow> UniformBuffer \<Rightarrow> UniformBuffer" where
  "updateFloat4 name a b c d suffix ub =
     ub\<lparr>updates := updates ub @ [(name, [a, b, c, d], suffix)]\<rparr>"

record 'tex Effect =
  matrices :: "(string \<times> Matrix) list"
  textures :: "(string \<times> 'tex) list"

definition setMatrix :: "string \<Rightarrow> Matrix \<Rightarrow> 'tex Effect \<Rightarrow> 'tex Effect" where
  "setMatrix name v e = e\<lparr>matrices := matrices e @ [(name, v)]\<rparr>"

definition setTexture :: "string \<Rightarrow> 'tex \<Rightarrow> 'tex Effect \<Rightarrow> 'tex Effect" where
  "setTexture name t e = e\<lparr>textures := textures e @ [(name, t)]\<rparr>"

text \<open>\<^verbatim>\<open>_buildUniformLayout\<close> (lines 213 to 226).\<close>

definition buildUniformLayout :: "UniformBuffer \<Rightarrow> UniformBuffer" where
  "buildUniformLayout ub =
     (let ub = addUniform ''vLightData'' 4 ub;
          ub = addUniform ''vLightDiffuse'' 4 ub;
          ub = addUniform ''vLightSpecular'' 3 ub;
          ub = addUniform ''vLightDirection'' 3 ub;
          ub = addUniform ''shadowsInfo'' 3 ub;
          ub = addUniform ''depthValues'' 2 ub;
          ub = addUniform ''textureProjectionFlag'' 2 ub
      in create ub)"

text \<open>
  \<^verbatim>\<open>transferToEffect\<close> (lines 232 to 268). \<open>transformed\<close> is what
  \<^verbatim>\<open>computeTransformedInformation()\<close> of the base class resolves: \<open>Some\<close> of the
  transformed position and direction when it answers true, \<open>None\<close> when it answers
  false. \<open>tex\<close> is \<^verbatim>\<open>this.projectedLightTexture\<close>. The light itself is returned
  unchanged, so only the two sinks are.
\<close>

definition transferToEffect ::
  "SpotLight \<Rightarrow> (Vector3 \<times> Vector3) option \<Rightarrow> 'tex option \<Rightarrow> string \<Rightarrow>
   UniformBuffer \<Rightarrow> 'tex Effect \<Rightarrow> UniformBuffer \<times> 'tex Effect" where
  "transferToEffect s transformed tex lightIndex ub effect =
     (let (ub1, normalizeDirection) =
            (case transformed of
               Some (transformedPosition, transformedDirection) \<Rightarrow>
                 (updateFloat4 ''vLightData''
                    (vx transformedPosition) (vy transformedPosition) (vz transformedPosition)
                    (exponent s) lightIndex ub,
                  Normalize transformedDirection)
             | None \<Rightarrow>
                 (updateFloat4 ''vLightData''
                    (vx (position s)) (vy (position s)) (vz (position s))
                    (exponent s) lightIndex ub,
                  Normalize (direction s)));
          ub2 = updateFloat4 ''vLightDirection''
                  (vx normalizeDirection) (vy normalizeDirection) (vz normalizeDirection)
                  (cos (angle s * 0.5)) lightIndex ub1;
          e1 = setMatrix (''textureMatrix'' @ lightIndex) (textureMatrix s) effect;
          e2 = (case tex of
                  Some t \<Rightarrow> setTexture (''projectionLightSampler'' @ lightIndex) t e1
                | None \<Rightarrow> e1)
      in (ub2, e2))"

text \<open>The values last written under a name and suffix, and a declared slot's size.\<close>

definition written :: "UniformBuffer \<Rightarrow> string \<Rightarrow> string \<Rightarrow> real list option" where
  "written ub name suffix =
     map_option fst
       (map_of (rev (map (\<lambda>(n, vs, sfx). ((n, sfx), (vs, ()))) (updates ub))) (name, suffix))"

definition declared :: "UniformBuffer \<Rightarrow> string \<Rightarrow> nat option" where
  "declared ub name = map_of (uniforms ub) name"

definition emptyBuffer :: UniformBuffer where
  "emptyBuffer = \<lparr>uniforms = [], created = False, updates = []\<rparr>"

definition emptyEffect :: "'tex Effect" where
  "emptyEffect = \<lparr>matrices = [], textures = []\<rparr>"

section \<open>The builder as the specification words it\<close>

text \<open>
  The entry in row \<open>i\<close> and column \<open>j\<close> (both from 0) of a matrix, a matrix from its
  entries, and the textbook product: entry \<open>(i, j)\<close> of \<open>a * b\<close> is the sum over \<open>k\<close> of
  \<open>a(i, k) * b(k, j)\<close>.
\<close>

definition entry :: "Matrix \<Rightarrow> nat \<Rightarrow> nat \<Rightarrow> real" where
  "entry M i j =
     [m0 M, m1 M, m2 M, m3 M, m4 M, m5 M, m6 M, m7 M,
      m8 M, m9 M, m10 M, m11 M, m12 M, m13 M, m14 M, m15 M] ! (4 * i + j)"

definition of_entries :: "(nat \<Rightarrow> nat \<Rightarrow> real) \<Rightarrow> Matrix" where
  "of_entries f = Matrix (f 0 0) (f 0 1) (f 0 2) (f 0 3)
                         (f 1 0) (f 1 1) (f 1 2) (f 1 3)
                         (f 2 0) (f 2 1) (f 2 2) (f 2 3)
                         (f 3 0) (f 3 1) (f 3 2) (f 3 3)"

definition spec_product :: "Matrix \<Rightarrow> Matrix \<Rightarrow> Matrix" where
  "spec_product a b = of_entries (\<lambda>i j. \<Sum>k\<leftarrow>[0, 1, 2, 3]. entry a i k * entry b k j)"

text \<open>
  Section 4.1 of the spec, step 2: diagonal \<open>(S/A, S, P)\<close>, the homogeneous term 1 in the
  last column of the z row, the translation term \<open>Q\<close> for z (in the translation row, the
  last one, as the matrices act on row vectors), every other entry 0.
\<close>

definition spec_perspective :: "real \<Rightarrow> real \<Rightarrow> real \<Rightarrow> Matrix" where
  "spec_perspective near far coneAngle =
     (let P = far / (far - near);
          Q = - P * near;
          S = 1 / tan (coneAngle / 2);
          A = 1
      in of_entries (\<lambda>i j.
           if i = j then [S / A, S, P, 0] ! i
           else if i = 2 \<and> j = 3 then 1
           else if i = 3 \<and> j = 2 then Q
           else 0))"

text \<open>Step 3: diagonal \<open>(0.5, 0.5, 0.5)\<close> and translation \<open>(0.5, 0.5, 0.5)\<close>, affine.\<close>

definition spec_biasScale :: Matrix where
  "spec_biasScale =
     of_entries (\<lambda>i j.
       if i = j then [0.5, 0.5, 0.5, 1] ! i
       else if i = 3 then 0.5
       else 0)"

text \<open>Steps 1 and 4: the look-at view matrix, and the composition.\<close>

definition spec_view :: "Vector3 \<Rightarrow> Vector3 \<Rightarrow> Matrix" where
  "spec_view pos dir = LookAtLH pos (add pos dir) (Vector3 0 1 0)"

definition spec_build :: "Vector3 \<Rightarrow> Vector3 \<Rightarrow> real \<Rightarrow> real \<Rightarrow> real \<Rightarrow> Matrix" where
  "spec_build pos dir near far coneAngle =
     spec_product (spec_product (spec_view pos dir) (spec_perspective near far coneAngle))
       spec_biasScale"

text \<open>
  Modelled from the spec: applying a matrix to a point is done by the consumer of the
  matrix, not in the source tree. The spec transforms row vectors, left to right, and
  divides by the homogeneous coordinate.
\<close>

definition rowTransform :: "real \<times> real \<times> real \<times> real \<Rightarrow> Matrix \<Rightarrow> real \<times> real \<times> real \<times> real" where
  "rowTransform r M =
     (case r of (a, b, c, d) \<Rightarrow>
        (a * m0 M + b * m4 M + c * m8 M + d * m12 M,
         a * m1 M + b * m5 M + c * m9 M + d * m13 M,
         a * m2 M + b * m6 M + c * m10 M + d * m14 M,
         a * m3 M + b * m7 M + c * m11 M + d * m15 M))"

definition TransformCoordinates :: "Vector3 \<Rightarrow> Matrix \<Rightarrow> Vector3" where
  "TransformCoordinates v M =
     (case rowTransform (vx v, vy v, vz v, 1) M of
        (a, b, c, w) \<Rightarrow> Vector3 (a / w) (b / w) (c / w))"

text \<open>The point at depth \<open>d\<close> on the optical axis of the light.\<close>

definition axisPoint :: "SpotLight \<Rightarrow> real \<Rightarrow> Vector3" where
  "axisPoint s d = add (position s) (scale d (Normalize (direction s)))"

section \<open>The build over numbers that may not be finite\<close>

text \<open>
  A JavaScript number is finite, or it is one of \<^verbatim>\<open>Infinity\<close>, \<^verbatim>\<open>-Infinity\<close> and
  \<^verbatim>\<open>NaN\<close>, which \<open>NonFinite\<close> stands for. Negation, sum and product of a number that
  is not finite are not finite either (among them infinity times 0 and infinity minus
  infinity, both NaN). A finite number divided by 0 is an infinity, or NaN when it is 0
  itself. Every divisor of the build is computed from the finite inputs of the light, so
  the divisor is a real.
\<close>

datatype jsnum = Finite real | NonFinite

fun js_neg :: "jsnum \<Rightarrow> jsnum" where
  "js_neg (Finite a) = Finite (- a)"
| "js_neg NonFinite = NonFinite"

fun js_add :: "jsnum \<Rightarrow> jsnum \<Rightarrow> jsnum" where
  "js_add (Finite a) (Finite b) = Finite (a + b)"
| "js_add _ _ = NonFinite"

fun js_mul :: "jsnum \<Rightarrow> jsnum \<Rightarrow> jsnum" where
  "js_mul (Finite a) (Finite b) = Finite (a * b)"
| "js_mul _ _ = NonFinite"

fun js_div :: "jsnum \<Rightarrow> real \<Rightarrow> jsnum" where
  "js_div (Finite a) b = (if b = 0 then NonFinite else Finite (a / b))"
| "js_div NonFinite b = NonFinite"

datatype JsMatrix = JsMatrix
  (j0: jsnum) (j1: jsnum) (j2: jsnum) (j3: jsnum)
  (j4: jsnum) (j5: jsnum) (j6: jsnum) (j7: jsnum)
  (j8: jsnum) (j9: jsnum) (j10: jsnum) (j11: jsnum)
  (j12: jsnum) (j13: jsnum) (j14: jsnum) (j15: jsnum)

definition ofMatrix :: "Matrix \<Rightarrow> JsMatrix" where
  "ofMatrix a = JsMatrix
     (Finite (m0 a)) (Finite (m1 a)) (Finite (m2 a)) (Finite (m3 a))
     (Finite (m4 a)) (Finite (m5 a)) (Finite (m6 a)) (Finite (m7 a))
     (Finite (m8 a)) (Finite (m9 a)) (Finite (m10 a)) (Finite (m11 a))
     (Finite (m12 a)) (Finite (m13 a)) (Finite (m14 a)) (Finite (m15 a))"

text \<open>
  \<open>multiply\<close> over these numbers: \<open>js_dot4 a1 b1 a2 b2 a3 b3 a4 b4\<close> is
  \<^verbatim>\<open>a1 * b1 + a2 * b2 + a3 * b3 + a4 * b4\<close>, summed from the left.
\<close>

definition js_dot4 ::
  "jsnum \<Rightarrow> jsnum \<Rightarrow> jsnum \<Rightarrow> jsnum \<Rightarrow> jsnum \<Rightarrow> jsnum \<Rightarrow> jsnum \<Rightarrow> jsnum \<Rightarrow> jsnum" where
  "js_dot4 a1 b1 a2 b2 a3 b3 a4 b4 =
     js_add (js_add (js_add (js_mul a1 b1) (js_mul a2 b2)) (js_mul a3 b3)) (js_mul a4 b4)"

definition multiplyJS :: "JsMatrix \<Rightarrow> JsMatrix \<Rightarrow> JsMatrix" where
  "multiplyJS a b = JsMatrix
     (js_dot4 (j0 a) (j0 b) (j1 a) (j4 b) (j2 a) (j8 b) (j3 a) (j12 b))
     (js_dot4 (j0 a) (j1 b) (j1 a) (j5 b) (j2 a) (j9 b) (j3 a) (j13 b))
     (js_dot4 (j0 a) (j2 b) (j1 a) (j6 b) (j2 a) (j10 b) (j3 a) (j14 b))
     (js_dot4 (j0 a) (j3 b) (j1 a) (j7 b) (j2 a) (j11 b) (j3 a) (j15 b))
     (js_dot4 (j4 a) (j0 b) (j5 a) (j4 b) (j6 a) (j8 b) (j7 a) (j12 b))
     (js_dot4 (j4 a) (j1 b) (j5 a) (j5 b) (j6 a) (j9 b) (j7 a) (j13 b))
     (js_dot4 (j4 a) (j2 b) (j5 a) (j6 b) (j6 a) (j10 b) (j7 a) (j14 b))
     (js_dot4 (j4 a) (j3 b) (j5 a) (j7 b) (j6 a) (j11 b) (j7 a) (j15 b))
     (js_dot4 (j8 a) (j0 b) (j9 a) (j4 b) (j10 a) (j8 b) (j11 a) (j12 b))
     (js_dot4 (j8 a) (j1 b) (j9 a) (j5 b) (j10 a) (j9 b) (j11 a) (j13 b))
     (js_dot4 (j8 a) (j2 b) (j9 a) (j6 b) (j10 a) (j10 b) (j11 a) (j14 b))
     (js_dot4 (j8 a) (j3 b) (j9 a) (j7 b) (j10 a) (j11 b) (j11 a) (j15 b))
     (js_dot4 (j12 a) (j0 b) (j13 a) (j4 b) (j14 a) (j8 b) (j15 a) (j12 b))
     (js_dot4 (j12 a) (j1 b) (j13 a) (j5 b) (j14 a) (j9 b) (j15 a) (j13 b))
     (js_dot4 (j12 a) (j2 b) (j13 a) (j6 b) (j14 a) (j10 b) (j15 a) (j14 b))
     (js_dot4 (j12 a) (j3 b) (j13 a) (j7 b) (j14 a) (j11 b) (j15 a) (j15 b))"

text \<open>
  Lines 84 to 96 over these numbers: \<^verbatim>\<open>light_far / (light_far - light_near)\<close>,
  \<^verbatim>\<open>- P * light_near\<close>, \<^verbatim>\<open>1.0 / Math.tan(this._angle / 2.0)\<close> and
  \<^verbatim>\<open>S / A\<close>, none of them guarded.
\<close>

definition projectionLightMatrixJS :: "SpotLight \<Rightarrow> JsMatrix" where
  "projectionLightMatrixJS s =
     (let light_far = light_far s;
          light_near = light_near s;
          P = js_div (Finite light_far) (light_far - light_near);
          Q = js_mul (js_neg P) (Finite light_near);
          S = js_div (Finite 1.0) (tan (angle s / 2.0));
          A = 1.0
      in JsMatrix (js_div S A) (Finite 0.0) (Finite 0.0) (Finite 0.0)
                  (Finite 0.0) S (Finite 0.0) (Finite 0.0)
                  (Finite 0.0) (Finite 0.0) P (Finite 1.0)
                  (Finite 0.0) (Finite 0.0) Q (Finite 0.0))"

text \<open>
  \<^verbatim>\<open>computeTextureMatrix\<close> over these numbers: the sixteen numbers lines 104 to 106
  leave in \<^verbatim>\<open>_textureMatrix\<close>. The function has no \<^verbatim>\<open>throw\<close> and no early return.
  The view matrix of line 82 is the one of the real model.
\<close>

definition computeTextureMatrixJS :: "SpotLight \<Rightarrow> JsMatrix" where
  "computeTextureMatrixJS s =
     (let t1 = ofMatrix (viewLightMatrix s);
          t2 = multiplyJS t1 (projectionLightMatrixJS s);
          t3 = multiplyJS t2 (ofMatrix scaleMatrix)
      in t3)"

text \<open>The degenerate geometry of section 7 of the spec.\<close>

definition spec_degenerate :: "SpotLight \<Rightarrow> bool" where
  "spec_degenerate s \<longleftrightarrow>
     length_v (direction s) = 0 \<or> angle s = 0 \<or> angle s = pi \<or> light_near s = light_far s"

text \<open>
  The valid inputs of section 3 of the spec: a direction that has a length, a cone angle
  above 0 and below \<open>\<pi>\<close>, and a far distance above a near distance above 0.
\<close>

definition spec_valid :: "SpotLight \<Rightarrow> bool" where
  "spec_valid s \<longleftrightarrow>
     direction s \<noteq> Vector3 0 0 0 \<and> 0 < angle s \<and> angle s < pi \<and>
     0 < light_near s \<and> light_near s < light_far s"

section \<open>Operations on a light, in sequence\<close>

datatype Operation =
    SetLightFar real
  | SetLightNear real
  | SetAngle real
  | SetShadowAngleScale real
  | SetTextureMatrix Matrix
  | SetPosition Vector3
  | SetDirection Vector3
  | ComputeTextureMatrix
  | ShadowProjection "Camera option" Matrix

fun perform :: "Operation \<Rightarrow> SpotLight \<Rightarrow> SpotLight" where
  "perform (SetLightFar v) s = set_light_far v s"
| "perform (SetLightNear v) s = set_light_near v s"
| "perform (SetAngle v) s = set_angle v s"
| "perform (SetShadowAngleScale v) s = set_shadowAngleScale v s"
| "perform (SetTextureMatrix v) s = set_textureMatrix v s"
| "perform (SetPosition v) s = set_position v s"
| "perform (SetDirection v) s = set_direction v s"
| "perform ComputeTextureMatrix s = computeTextureMatrix s"
| "perform (ShadowProjection cam matrix) s = fst (setDefaultShadowProjectionMatrix s cam matrix)"

fun run :: "Operation list \<Rightarrow> SpotLight \<Rightarrow> SpotLight" where
  "run [] s = s"
| "run (op # ops) s = run ops (perform op s)"

section \<open>Concrete lights\<close>

definition baseLight :: SpotLight where
  "baseLight = \<lparr>position = Vector3 0 0 0, direction = Vector3 0 0 0,
     needProjectionMatrixCompute = False, light_far = 0, light_near = 0, angle = 0,
     shadowAngleScale = None, exponent = 0, textureMatrix = Zero\<rparr>"

definition exampleLight :: SpotLight where
  "exampleLight = SpotLight_new baseLight (Vector3 0 0 0) (Vector3 0 0 1) (pi / 2) 2"

definition exampleCamera :: Camera where
  "exampleCamera = \<lparr>depthMinZ = 1, depthMaxZ = 100\<rparr>"

section \<open>The shadow projection: claims C3, C5 and C10\<close>

lemma shadow_build_state:
  "fst (setDefaultShadowProjectionMatrix s (Some cam) matrix) =
     s\<lparr>shadowAngleScale := Some (orOne (shadowAngleScale s))\<rparr>"
  by (simp add: setDefaultShadowProjectionMatrix_def Let_def)

lemma orOne_nonzero: "orOne v \<noteq> 0"
  by (simp add: orOne_def split: option.splits)

lemma shadowAngleScale_perform:
  "op \<noteq> SetShadowAngleScale 0 \<Longrightarrow> shadowAngleScale s \<notin> {None, Some 0} \<Longrightarrow>
   shadowAngleScale (perform op s) \<notin> {None, Some 0}"
  by (cases op)
     (auto simp add: set_light_far_def set_light_near_def set_angle_def set_shadowAngleScale_def
       set_textureMatrix_def set_position_def set_direction_def computeTextureMatrix_def
       forceProjectionMatrixCompute_def setDefaultShadowProjectionMatrix_def orOne_def Let_def
       split: option.splits)

lemma shadowAngleScale_run:
  "SetShadowAngleScale 0 \<notin> set ops \<Longrightarrow> shadowAngleScale s \<notin> {None, Some 0} \<Longrightarrow>
   shadowAngleScale (run ops s) \<notin> {None, Some 0}"
proof (induction ops arbitrary: s)
  case Nil
  then show ?case by simp
next
  case (Cons op ops)
  from Cons.prems have "op \<noteq> SetShadowAngleScale 0"
    and rest: "SetShadowAngleScale 0 \<notin> set ops"
    by auto
  with Cons.prems have "shadowAngleScale (perform op s) \<notin> {None, Some 0}"
    using shadowAngleScale_perform by blast
  with rest show ?case using Cons.IH by simp
qed

text \<open>
  Claim C3. With an active camera, the matrix the shadow-projection build leaves is the
  left-handed perspective matrix of field of view \<open>coneAngle * (shadowAngleScale || 1)\<close>
  (the scale counted as 1 when it is unset or 0), aspect ratio 1, near plane the camera's
  \<open>depthMinZ\<close> and far plane its \<open>depthMaxZ\<close>; the light's own near and far clip
  distances have no part in it.
\<close>

theorem shadow_projection_matrix:
  "snd (setDefaultShadowProjectionMatrix s (Some cam) matrix) =
     PerspectiveFovLH (angle s * orOne (shadowAngleScale s)) 1 (depthMinZ cam) (depthMaxZ cam)
   \<and> orOne None = 1 \<and> orOne (Some 0) = 1 \<and> orOne (Some k) = (if k = 0 then 1 else k)
   \<and> snd (setDefaultShadowProjectionMatrix (s\<lparr>light_near := n, light_far := f\<rparr>)
            (Some cam) matrix) =
     snd (setDefaultShadowProjectionMatrix s (Some cam) matrix)"
  by (simp add: setDefaultShadowProjectionMatrix_def orOne_def mult.commute)

text \<open>
  Claim C5. Without an active camera the shadow-projection update changes nothing: the
  matrix it was given, whatever it held, and the light come back as they were.
\<close>

theorem no_camera_noop:
  "setDefaultShadowProjectionMatrix s None matrix = (s, matrix)"
  by (simp add: setDefaultShadowProjectionMatrix_def)

text \<open>
  Claim C10, as stated, fails: the defaulting is stored, but the stored scale can be 0
  again after a build, because the public setter stores any number. Here a build with a
  camera is followed by \<^verbatim>\<open>shadowAngleScale = 0\<close>, and the getter reads 0.
\<close>

theorem shadowAngleScale_zero_again:
  "shadowAngleScale
     (run [ShadowProjection (Some exampleCamera) Zero, SetShadowAngleScale 0] exampleLight)
   = Some 0"
  by (simp add: set_shadowAngleScale_def forceProjectionMatrixCompute_def)

text \<open>
  Claim C10, amended. A shadow-projection build with an active camera changes the light:
  the stored \<open>shadowAngleScale\<close> becomes 1 when it was unset or 0 and is kept otherwise,
  and nothing else of the light changes. From then on the scale read from the light is
  neither unset nor 0 after any sequence of setter calls, rebuilds and further builds in
  which the \<open>shadowAngleScale\<close> setter is not called with 0.
\<close>

theorem shadowAngleScale_persistent:
  "fst (setDefaultShadowProjectionMatrix s (Some cam) matrix) =
     s\<lparr>shadowAngleScale :=
          Some (if shadowAngleScale s = None \<or> shadowAngleScale s = Some 0
                then 1 else the (shadowAngleScale s))\<rparr>
   \<and> (SetShadowAngleScale 0 \<notin> set ops \<longrightarrow>
        shadowAngleScale
          (run ops (fst (setDefaultShadowProjectionMatrix s (Some cam) matrix)))
          \<notin> {None, Some 0})"
proof -
  let ?s' = "fst (setDefaultShadowProjectionMatrix s (Some cam) matrix)"
  have a: "?s' = s\<lparr>shadowAngleScale :=
                      Some (if shadowAngleScale s = None \<or> shadowAngleScale s = Some 0
                            then 1 else the (shadowAngleScale s))\<rparr>"
    by (cases "shadowAngleScale s") (simp_all add: shadow_build_state orOne_def)
  have "shadowAngleScale ?s' \<notin> {None, Some 0}"
    by (simp add: shadow_build_state orOne_nonzero)
  then have b: "SetShadowAngleScale 0 \<notin> set ops \<longrightarrow>
                shadowAngleScale (run ops ?s') \<notin> {None, Some 0}"
    using shadowAngleScale_run by blast
  from a b show ?thesis by blast
qed

theorem shadowAngleScale_persistent_witness:
  "SetShadowAngleScale 0 \<notin> set [SetAngle 1, SetShadowAngleScale 2, ShadowProjection None Zero]
   \<and> shadowAngleScale
        (run [SetAngle 1, SetShadowAngleScale 2, ShadowProjection None Zero]
           (fst (setDefaultShadowProjectionMatrix exampleLight (Some exampleCamera) Zero)))
        \<notin> {None, Some 0}"
proof -
  have h: "SetShadowAngleScale 0 \<notin>
           set [SetAngle 1, SetShadowAngleScale 2, ShadowProjection None Zero]"
    by simp
  from h shadowAngleScale_persistent
    [of exampleLight exampleCamera Zero
        "[SetAngle 1, SetShadowAngleScale 2, ShadowProjection None Zero]"]
  show ?thesis by blast
qed

section \<open>The uniform layout: claim C9\<close>

text \<open>
  Claim C9 asks for a light-direction slot of 4 components, as many as are written into
  it. The layout of the source declares \<^verbatim>\<open>vLightDirection\<close> with 3 components, and
  \<^verbatim>\<open>transferToEffect\<close> writes 4 numbers under that name: the declared slots are, in
  order, 4, 4, 3, 3, 3, 2 and 2.
\<close>

theorem layout_direction_three:
  "uniforms (buildUniformLayout emptyBuffer) =
     [(''vLightData'', 4), (''vLightDiffuse'', 4), (''vLightSpecular'', 3),
      (''vLightDirection'', 3), (''shadowsInfo'', 3), (''depthValues'', 2),
      (''textureProjectionFlag'', 2)]
   \<and> declared (buildUniformLayout emptyBuffer) ''vLightDirection'' = Some 3
   \<and> map_option length
        (written (fst (transferToEffect exampleLight None (None :: nat option) ''0''
                         (buildUniformLayout emptyBuffer) emptyEffect))
           ''vLightDirection'' ''0'') = Some 4"
  by (simp add: declared_def written_def buildUniformLayout_def addUniform_def create_def
      emptyBuffer_def transferToEffect_def updateFloat4_def Let_def)

section \<open>The texture-projection builder: claims C2, C6 and C1\<close>

lemma multiply_spec_product: "multiply a b = spec_product a b"
  by (cases a, cases b) (simp add: multiply_def spec_product_def of_entries_def entry_def)

lemma projectionLightMatrix_spec:
  "projectionLightMatrix s = spec_perspective (light_near s) (light_far s) (angle s)"
  by (simp add: projectionLightMatrix_def spec_perspective_def of_entries_def Let_def)

lemma scaleMatrix_spec: "scaleMatrix = spec_biasScale"
  by (simp add: scaleMatrix_def spec_biasScale_def of_entries_def)

lemma viewLightMatrix_spec: "viewLightMatrix s = spec_view (position s) (direction s)"
  by (simp add: viewLightMatrix_def spec_view_def Up_def)

lemma computeTextureMatrix_build:
  "textureMatrix (computeTextureMatrix s) =
     spec_build (position s) (direction s) (light_near s) (light_far s) (angle s)"
  by (simp add: computeTextureMatrix_def Let_def spec_build_def multiply_spec_product
      projectionLightMatrix_spec scaleMatrix_spec viewLightMatrix_spec)

lemma computeTextureMatrix_fields:
  "position (computeTextureMatrix s) = position s"
  "direction (computeTextureMatrix s) = direction s"
  "light_near (computeTextureMatrix s) = light_near s"
  "light_far (computeTextureMatrix s) = light_far s"
  "angle (computeTextureMatrix s) = angle s"
  by (simp_all add: computeTextureMatrix_def Let_def)

lemma exampleLight_fields:
  "position exampleLight = Vector3 0 0 0"
  "direction exampleLight = Vector3 0 0 1"
  "light_near exampleLight = 1 / 10 ^ 7"
  "light_far exampleLight = 1000"
  "angle exampleLight = pi / 2"
  by (simp_all add: exampleLight_def SpotLight_new_def Let_def computeTextureMatrix_fields
      set_light_near_def set_light_far_def set_angle_def set_position_def set_direction_def
      forceProjectionMatrixCompute_def)

lemma exampleLight_view:
  "viewLightMatrix exampleLight = Matrix 1 0 0 0  0 1 0 0  0 0 1 0  0 0 0 1"
  by (simp add: viewLightMatrix_def exampleLight_fields LookAtLH_def lookAt_zAxis_def
      lookAt_xAxis_def lookAt_yAxis_def Normalize_def length_v_def lengthSquared_def
      Cross_def Dot_def add_def subtract_def Up_def scale_def Let_def)

lemma exampleLight_fresh:
  "textureMatrix exampleLight = textureMatrix (computeTextureMatrix exampleLight)"
  by (simp add: exampleLight_def SpotLight_new_def Let_def computeTextureMatrix_def
      viewLightMatrix_def projectionLightMatrix_def)

lemma exampleLight_m5: "m5 (textureMatrix exampleLight) = 1 / 2"
  unfolding exampleLight_fresh
  by (simp add: computeTextureMatrix_def Let_def exampleLight_view multiply_def
      projectionLightMatrix_def scaleMatrix_def exampleLight_fields tan_45)

text \<open>
  Claim C2. The matrix \<^verbatim>\<open>computeTextureMatrix\<close> stores is the product
  \<open>view * perspective * biasScale\<close>: \<open>view\<close> the left-handed look-at matrix from the
  position toward position plus direction with up vector \<open>(0,1,0)\<close>; \<open>perspective\<close> with
  diagonal \<open>(S/A, S, P)\<close>, \<open>P = far / (far - near)\<close>, \<open>Q = - P * near\<close>,
  \<open>S = 1 / tan (coneAngle / 2)\<close>, \<open>A = 1\<close>, the homogeneous term 1 in the last column of
  the z row and \<open>Q\<close> the translation term for z; \<open>biasScale\<close> with diagonal
  \<open>(0.5, 0.5, 0.5)\<close> and translation \<open>(0.5, 0.5, 0.5)\<close>.
\<close>

theorem texture_matrix_composition:
  "textureMatrix (computeTextureMatrix s) =
     spec_product
       (spec_product (LookAtLH (position s) (add (position s) (direction s)) (Vector3 0 1 0))
          (spec_perspective (light_near s) (light_far s) (angle s)))
       spec_biasScale
   \<and> spec_perspective near far a =
       Matrix (1 / tan (a / 2) / 1) 0 0 0
              0 (1 / tan (a / 2)) 0 0
              0 0 (far / (far - near)) 1
              0 0 (- (far / (far - near)) * near) 0
   \<and> spec_biasScale = Matrix 0.5 0 0 0  0 0.5 0 0  0 0 0.5 0  0.5 0.5 0.5 1"
  by (simp add: computeTextureMatrix_build spec_build_def spec_view_def spec_perspective_def
        spec_biasScale_def of_entries_def Let_def)

text \<open>
  Claim C6. Whatever matrix is assigned through the \<^verbatim>\<open>textureMatrix\<close> setter, the
  matrix read afterwards is the one rebuilt from the current position, direction, near,
  far and cone angle, none of which the setter changes; the assigned value has no part in
  it.
\<close>

theorem set_textureMatrix_discards:
  "(let t = set_textureMatrix v s in
      textureMatrix t =
        spec_build (position t) (direction t) (light_near t) (light_far t) (angle t)
      \<and> textureMatrix t = textureMatrix (computeTextureMatrix s)
      \<and> position t = position s \<and> direction t = direction s
      \<and> light_near t = light_near s \<and> light_far t = light_far s \<and> angle t = angle s)
   \<and> textureMatrix (set_textureMatrix v s) = textureMatrix (set_textureMatrix w s)"
  by (simp add: set_textureMatrix_def computeTextureMatrix_build computeTextureMatrix_fields
      Let_def)

text \<open>
  Claim C1, as stated, fails for the angle setter, which does not rebuild (the class
  comment, lines 15 to 18, warns of it). The light built with position \<open>(0,0,0)\<close>,
  direction \<open>(0,0,1)\<close>, near \<open>1e-7\<close>, far 1000 and angle \<open>\<pi>/2\<close> has its angle set to
  \<open>2 * arctan 2\<close>: the matrix read afterwards is not the matrix the builder makes of the
  current values.
\<close>

theorem angle_setter_stale:
  "textureMatrix (set_angle (2 * arctan 2) exampleLight) \<noteq>
   textureMatrix (computeTextureMatrix (set_angle (2 * arctan 2) exampleLight))"
proof -
  let ?t = "set_angle (2 * arctan 2) exampleLight"
  have l: "m5 (textureMatrix ?t) = 1 / 2"
    by (simp add: set_angle_def forceProjectionMatrixCompute_def exampleLight_m5)
  have v: "viewLightMatrix ?t = Matrix 1 0 0 0  0 1 0 0  0 0 1 0  0 0 0 1"
    using exampleLight_view
    by (simp add: set_angle_def forceProjectionMatrixCompute_def viewLightMatrix_def)
  have f: "angle ?t = 2 * arctan 2" "light_near ?t = 1 / 10 ^ 7" "light_far ?t = 1000"
    by (simp_all add: set_angle_def forceProjectionMatrixCompute_def exampleLight_fields)
  have r: "m5 (textureMatrix (computeTextureMatrix ?t)) = 1 / 4"
    by (simp add: computeTextureMatrix_def Let_def v multiply_def
        projectionLightMatrix_def scaleMatrix_def f tan_arctan)
  from l r show ?thesis by auto
qed

text \<open>
  Claim C1, amended. After the \<^verbatim>\<open>light_near\<close> setter or the \<^verbatim>\<open>light_far\<close>
  setter returns, the matrix read is the matrix the builder makes of the current position,
  direction, near, far and cone angle, and a further call of the builder would not change
  it. The \<^verbatim>\<open>angle\<close> setter leaves the cached matrix as it was.
\<close>

theorem near_far_setters_rebuild:
  "(let t = set_light_near v s in
      light_near t = v
      \<and> textureMatrix t =
          spec_build (position t) (direction t) (light_near t) (light_far t) (angle t)
      \<and> textureMatrix t = textureMatrix (computeTextureMatrix t))
   \<and> (let t = set_light_far v s in
      light_far t = v
      \<and> textureMatrix t =
          spec_build (position t) (direction t) (light_near t) (light_far t) (angle t)
      \<and> textureMatrix t = textureMatrix (computeTextureMatrix t))
   \<and> (let t = set_angle v s in angle t = v \<and> textureMatrix t = textureMatrix s)"
  by (simp add: set_light_near_def set_light_far_def set_angle_def
      forceProjectionMatrixCompute_def computeTextureMatrix_build computeTextureMatrix_fields
      Let_def)

section \<open>Half angle and full angle: claim C4\<close>

text \<open>
  Claim C4. The fourth number written into the light-direction uniform is
  \<open>cos (coneAngle / 2)\<close>, whichever direction is packed with it; the field of view of the
  shadow projection is the whole \<open>coneAngle\<close> times the \<open>shadowAngleScale\<close> of the light the
  build is called on, the scale counting as 1 when it is unset or 0.
\<close>

theorem angle_conventions:
  "map_option (\<lambda>vs. vs ! 3)
     (written (fst (transferToEffect s transformed tex lightIndex ub effect))
        ''vLightDirection'' lightIndex) = Some (cos (angle s / 2))
   \<and> snd (setDefaultShadowProjectionMatrix s (Some cam) matrix) =
       PerspectiveFovLH (angle s * orOne (shadowAngleScale s)) 1 (depthMinZ cam) (depthMaxZ cam)
   \<and> orOne None = 1 \<and> orOne (Some 0) = 1 \<and> orOne (Some k) = (if k = 0 then 1 else k)"
  by (cases transformed)
     (auto simp add: transferToEffect_def written_def updateFloat4_def Let_def
       setDefaultShadowProjectionMatrix_def orOne_def mult.commute split: prod.splits)

section \<open>Degenerate geometry: claim C8\<close>

lemma multiplyJS_ofMatrix: "multiplyJS (ofMatrix a) (ofMatrix b) = ofMatrix (multiply a b)"
  by (cases a, cases b) (simp add: multiplyJS_def ofMatrix_def multiply_def js_dot4_def)

lemma projectionLightMatrixJS_finite:
  "light_far s \<noteq> light_near s \<Longrightarrow> tan (angle s / 2) \<noteq> 0 \<Longrightarrow>
   projectionLightMatrixJS s = ofMatrix (projectionLightMatrix s)"
  by (simp add: projectionLightMatrixJS_def projectionLightMatrix_def ofMatrix_def Let_def)

lemma tan_half_angle: "0 < a \<Longrightarrow> a < pi \<Longrightarrow> tan (a / 2) \<noteq> 0"
  using tan_gt_zero [of "a / 2"] by simp

lemma computeTextureMatrix_product:
  "textureMatrix (computeTextureMatrix s) =
     multiply (multiply (viewLightMatrix s) (projectionLightMatrix s)) scaleMatrix"
  by (simp add: computeTextureMatrix_def Let_def projectionLightMatrix_def)

lemma computeTextureMatrixJS_finite:
  "light_far s \<noteq> light_near s \<Longrightarrow> 0 < angle s \<Longrightarrow> angle s < pi \<Longrightarrow>
   computeTextureMatrixJS s = ofMatrix (textureMatrix (computeTextureMatrix s))"
  by (simp add: computeTextureMatrixJS_def computeTextureMatrix_product Let_def
      projectionLightMatrixJS_finite tan_half_angle multiplyJS_ofMatrix)

lemma js_mul_NonFinite: "js_mul a NonFinite = NonFinite"
  by (cases a) simp_all

lemma js_add_NonFinite: "js_add a NonFinite = NonFinite"
  by (cases a) simp_all

lemma near_eq_far_nonfinite:
  "light_near s = light_far s \<Longrightarrow>
   computeTextureMatrixJS s =
     JsMatrix NonFinite NonFinite NonFinite NonFinite  NonFinite NonFinite NonFinite NonFinite
              NonFinite NonFinite NonFinite NonFinite  NonFinite NonFinite NonFinite NonFinite"
  by (cases "viewLightMatrix s")
     (simp add: computeTextureMatrixJS_def projectionLightMatrixJS_def multiplyJS_def
       ofMatrix_def scaleMatrix_def js_dot4_def Let_def js_mul_NonFinite js_add_NonFinite)

lemma angle_zero_nonfinite:
  "angle s = 0 \<Longrightarrow>
   computeTextureMatrixJS s =
     JsMatrix NonFinite NonFinite NonFinite NonFinite  NonFinite NonFinite NonFinite NonFinite
              NonFinite NonFinite NonFinite NonFinite  NonFinite NonFinite NonFinite NonFinite"
  by (cases "viewLightMatrix s";
      cases "js_div (Finite (light_far s)) (light_far s - light_near s)")
     (simp_all add: computeTextureMatrixJS_def projectionLightMatrixJS_def multiplyJS_def
       ofMatrix_def scaleMatrix_def js_dot4_def Let_def js_mul_NonFinite js_add_NonFinite)

text \<open>
  Claim C8, as stated, fails: the build validates nothing. The example light with its near
  distance set equal to its far distance, 1000, is degenerate geometry; the build
  completes on it and leaves a matrix whose sixteen entries are results of a division by
  zero, none of them finite, where the claim has it fail instead.
\<close>

theorem degenerate_build_stores_nonfinite:
  "spec_degenerate (exampleLight\<lparr>light_near := 1000\<rparr>)
   \<and> computeTextureMatrixJS (exampleLight\<lparr>light_near := 1000\<rparr>) =
       JsMatrix NonFinite NonFinite NonFinite NonFinite
                NonFinite NonFinite NonFinite NonFinite
                NonFinite NonFinite NonFinite NonFinite
                NonFinite NonFinite NonFinite NonFinite"
  by (simp add: spec_degenerate_def exampleLight_fields near_eq_far_nonfinite)

text \<open>
  Claim C8, amended. The texture-projection build validates nothing and signals nothing.
  When near equals far, or the cone angle is 0, it divides by zero and completes, and
  every one of the sixteen entries of the matrix it stores is an infinity or NaN. When
  near differs from far, the cone angle is above 0 and below \<open>\<pi>\<close> and the direction is
  not the zero vector, no divisor is 0 and it stores the finite product
  \<open>view * perspective * scale\<close>. Nothing is stated for a cone angle of \<open>\<pi>\<close>, where the
  tangent has a pole, or for a direction of length 0 alone.
\<close>

theorem build_divides_unguarded:
  "(light_near s = light_far s \<or> angle s = 0 \<longrightarrow>
      computeTextureMatrixJS s =
        JsMatrix NonFinite NonFinite NonFinite NonFinite
                 NonFinite NonFinite NonFinite NonFinite
                 NonFinite NonFinite NonFinite NonFinite
                 NonFinite NonFinite NonFinite NonFinite)
   \<and> (direction s \<noteq> Vector3 0 0 0 \<and> light_near s \<noteq> light_far s
        \<and> 0 < angle s \<and> angle s < pi \<longrightarrow>
      computeTextureMatrixJS s =
        ofMatrix (multiply (multiply (viewLightMatrix s) (projectionLightMatrix s))
                    scaleMatrix)
      \<and> computeTextureMatrixJS s = ofMatrix (textureMatrix (computeTextureMatrix s)))"
proof -
  have a: "computeTextureMatrixJS s =
        JsMatrix NonFinite NonFinite NonFinite NonFinite
                 NonFinite NonFinite NonFinite NonFinite
                 NonFinite NonFinite NonFinite NonFinite
                 NonFinite NonFinite NonFinite NonFinite"
    if "light_near s = light_far s \<or> angle s = 0"
    using that near_eq_far_nonfinite angle_zero_nonfinite by blast
  have b: "computeTextureMatrixJS s = ofMatrix (textureMatrix (computeTextureMatrix s))"
    if "light_near s \<noteq> light_far s" "0 < angle s" "angle s < pi"
    using that computeTextureMatrixJS_finite [of s] by simp
  from a b show ?thesis by (simp add: computeTextureMatrix_product)
qed

theorem build_divides_unguarded_witness:
  "(light_near (exampleLight\<lparr>light_near := 1000\<rparr>) =
      light_far (exampleLight\<lparr>light_near := 1000\<rparr>)
    \<or> angle (exampleLight\<lparr>light_near := 1000\<rparr>) = 0)
   \<and> computeTextureMatrixJS (exampleLight\<lparr>light_near := 1000\<rparr>) =
        JsMatrix NonFinite NonFinite NonFinite NonFinite
                 NonFinite NonFinite NonFinite NonFinite
                 NonFinite NonFinite NonFinite NonFinite
                 NonFinite NonFinite NonFinite NonFinite
   \<and> direction exampleLight \<noteq> Vector3 0 0 0
   \<and> light_near exampleLight \<noteq> light_far exampleLight
   \<and> 0 < angle exampleLight \<and> angle exampleLight < pi
   \<and> computeTextureMatrixJS exampleLight =
        ofMatrix (textureMatrix (computeTextureMatrix exampleLight))"
proof -
  have h1: "light_near (exampleLight\<lparr>light_near := 1000\<rparr>) =
              light_far (exampleLight\<lparr>light_near := 1000\<rparr>)
            \<or> angle (exampleLight\<lparr>light_near := 1000\<rparr>) = 0"
    by (simp add: exampleLight_fields)
  have h2: "direction exampleLight \<noteq> Vector3 0 0 0
            \<and> light_near exampleLight \<noteq> light_far exampleLight
            \<and> 0 < angle exampleLight \<and> angle exampleLight < pi"
    by (simp add: exampleLight_fields)
  from h1 h2 build_divides_unguarded [of "exampleLight\<lparr>light_near := 1000\<rparr>"]
    build_divides_unguarded [of exampleLight]
  show ?thesis by blast
qed

section \<open>Points on the optical axis: claim C7\<close>

lemma subtract_add: "subtract (add a b) a = b"
  by (cases a, cases b) (simp add: subtract_def add_def)

lemma Dot_Cross_right: "Dot (Cross a b) b = 0"
  by (simp add: Dot_def Cross_def algebra_simps)

lemma Dot_Cross_left: "Dot (Cross a b) a = 0"
  by (simp add: Dot_def Cross_def algebra_simps)

lemma Dot_scale: "Dot (scale k v) w = k * Dot v w"
  by (simp add: Dot_def scale_def algebra_simps)

lemma Dot_commute: "Dot a b = Dot b a"
  by (simp add: Dot_def mult.commute)

lemma Dot_Normalize_zero: "Dot v w = 0 \<Longrightarrow> Dot (Normalize v) w = 0"
  by (simp add: Normalize_def Let_def Dot_scale)

lemma lengthSquared_nonneg: "0 \<le> lengthSquared v"
  by (simp add: lengthSquared_def)

lemma Dot_self: "Dot v v = lengthSquared v"
  by (simp add: Dot_def lengthSquared_def)

lemma lengthSquared_scale: "lengthSquared (scale k v) = k * k * lengthSquared v"
  by (simp add: lengthSquared_def scale_def algebra_simps)

lemma Dot_Normalize_self:
  assumes "length_v v \<noteq> 0"
  shows "Dot (Normalize v) (Normalize v) = 1"
proof (cases "length_v v = 1")
  case True
  then have "lengthSquared v = 1" by (simp add: length_v_def)
  with True show ?thesis by (simp add: Normalize_def Dot_self)
next
  case False
  have sq: "length_v v * length_v v = lengthSquared v"
    by (simp add: length_v_def lengthSquared_nonneg)
  have "Dot (Normalize v) (Normalize v) =
          (1 / length_v v) * (1 / length_v v) * lengthSquared v"
    using False assms
    by (simp add: Normalize_def Let_def Dot_self lengthSquared_scale)
  also have "\<dots> = lengthSquared v / (length_v v * length_v v)" by simp
  also have "\<dots> = 1" using assms by (simp add: sq [symmetric])
  finally show ?thesis .
qed

lemma length_v_nonzero: "v \<noteq> Vector3 0 0 0 \<Longrightarrow> length_v v \<noteq> 0"
proof (cases v)
  case (Vector3 a b c)
  assume "v \<noteq> Vector3 0 0 0"
  with Vector3 have "a \<noteq> 0 \<or> b \<noteq> 0 \<or> c \<noteq> 0" by simp
  then have "a * a + b * b + c * c \<noteq> 0"
    by (metis add_nonneg_eq_0_iff mult_eq_0_iff zero_le_square add_nonneg_nonneg)
  with Vector3 show ?thesis by (simp add: length_v_def lengthSquared_def)
qed

lemma xAxis_orthogonal:
  "Dot (lookAt_xAxis eye target Up) (lookAt_zAxis eye target) = 0"
proof (cases "lengthSquared (Cross Up (lookAt_zAxis eye target)) = 0")
  case True
  obtain a b c where z: "lookAt_zAxis eye target = Vector3 a b c"
    by (cases "lookAt_zAxis eye target") auto
  from True z have "c * c + a * a = 0"
    by (simp add: lengthSquared_def Cross_def Up_def)
  then have "a = 0"
    by (metis add_nonneg_eq_0_iff mult_eq_0_iff zero_le_square)
  with True z show ?thesis
    by (simp add: lookAt_xAxis_def Let_def Dot_def Cross_def Up_def)
next
  case False
  then show ?thesis
    by (simp add: lookAt_xAxis_def Let_def Dot_Normalize_zero Dot_Cross_right)
qed

lemma yAxis_orthogonal:
  "Dot (lookAt_yAxis eye target up) (lookAt_zAxis eye target) = 0"
  by (simp add: lookAt_yAxis_def Dot_Normalize_zero Dot_Cross_left)

lemma rowTransform_multiply:
  "rowTransform r (multiply a b) = rowTransform (rowTransform r a) b"
  by (cases r, cases a, cases b) (simp add: rowTransform_def multiply_def algebra_simps)

lemma rowTransform_LookAtLH:
  "rowTransform (vx p, vy p, vz p, 1) (LookAtLH eye target up) =
     (Dot (lookAt_xAxis eye target up) (subtract p eye),
      Dot (lookAt_yAxis eye target up) (subtract p eye),
      Dot (lookAt_zAxis eye target) (subtract p eye), 1)"
  by (simp add: rowTransform_def LookAtLH_def Let_def Dot_def subtract_def algebra_simps)

lemma axisPoint_offset:
  "subtract (axisPoint s d) (position s) =
     scale d (lookAt_zAxis (position s) (add (position s) (direction s)))"
  by (cases "position s")
     (simp add: axisPoint_def lookAt_zAxis_def subtract_add subtract_def add_def scale_def)

lemma axisPoint_view:
  assumes "direction s \<noteq> Vector3 0 0 0"
  shows "rowTransform (vx (axisPoint s d), vy (axisPoint s d), vz (axisPoint s d), 1)
           (viewLightMatrix s) = (0, 0, d, 1)"
proof -
  let ?z = "lookAt_zAxis (position s) (add (position s) (direction s))"
  have z: "?z = Normalize (direction s)"
    by (simp add: lookAt_zAxis_def subtract_add)
  have "Dot ?z ?z = 1"
    unfolding z using assms by (intro Dot_Normalize_self length_v_nonzero)
  moreover have "Dot ?z (lookAt_xAxis (position s) (add (position s) (direction s)) Up) = 0"
    using xAxis_orthogonal by (simp add: Dot_commute)
  moreover have "Dot ?z (lookAt_yAxis (position s) (add (position s) (direction s)) Up) = 0"
    using yAxis_orthogonal by (simp add: Dot_commute)
  ultimately show ?thesis
    by (simp add: viewLightMatrix_def rowTransform_LookAtLH axisPoint_offset
        Dot_commute [of _ "scale _ _"] Dot_scale)
qed

lemma axisPoint_texture:
  assumes "direction s \<noteq> Vector3 0 0 0" and "d \<noteq> 0"
  shows "vx (TransformCoordinates (axisPoint s d) (textureMatrix (computeTextureMatrix s)))
         = 1 / 2"
    and "vy (TransformCoordinates (axisPoint s d) (textureMatrix (computeTextureMatrix s)))
         = 1 / 2"
  using assms
  by (simp_all add: TransformCoordinates_def computeTextureMatrix_def Let_def
      rowTransform_multiply axisPoint_view)
     (simp_all add: rowTransform_def projectionLightMatrix_def scaleMatrix_def Let_def)

lemma example_row:
  "rowTransform (0, 0, 500, 1) (textureMatrix exampleLight) =
     (250, 250,
      250 * (1000 / (1000 - 1 / 10 ^ 7)) + 250
        - (1000 / (1000 - 1 / 10 ^ 7)) * (1 / 10 ^ 7) / 2,
      500)"
  unfolding exampleLight_fresh
  by (simp add: computeTextureMatrix_def Let_def rowTransform_multiply exampleLight_view)
     (simp add: rowTransform_def projectionLightMatrix_def scaleMatrix_def Let_def
       exampleLight_fields tan_45)

text \<open>
  Claim C7, as stated, fails in the depth coordinate: for the example light the point
  \<open>(0,0,500)\<close> is mapped to a texture-space depth that is not within \<open>1e-3\<close> of 0.5.
\<close>

theorem example_depth_not_half:
  "\<not> \<bar>vz (TransformCoordinates (Vector3 0 0 500) (textureMatrix exampleLight)) - 0.5\<bar>
       \<le> 1 / 1000"
  by (simp add: TransformCoordinates_def example_row)

text \<open>
  Claim C7, amended. For the example light (position \<open>(0,0,0)\<close>, direction \<open>(0,0,1)\<close>,
  near \<open>1e-7\<close>, far 1000, cone angle \<open>\<pi>/2\<close>) the point \<open>(0,0,500)\<close> is mapped, after
  the homogeneous divide, to x and y equal to 0.5 and a depth within \<open>1e-3\<close> of 1. For
  every light of valid geometry, the point of the optical axis at depth \<open>d\<close>,
  near \<open>\<le> d \<le>\<close> far, is mapped to x and y equal to 0.5 exactly.
\<close>

theorem axis_point_texture_centre:
  "vx (TransformCoordinates (Vector3 0 0 500) (textureMatrix exampleLight)) = 0.5
   \<and> vy (TransformCoordinates (Vector3 0 0 500) (textureMatrix exampleLight)) = 0.5
   \<and> \<bar>vz (TransformCoordinates (Vector3 0 0 500) (textureMatrix exampleLight)) - 1\<bar>
       \<le> 1 / 1000
   \<and> (spec_valid s \<and> light_near s \<le> d \<and> d \<le> light_far s \<longrightarrow>
        vx (TransformCoordinates (axisPoint s d) (textureMatrix (computeTextureMatrix s))) = 0.5
      \<and> vy (TransformCoordinates (axisPoint s d) (textureMatrix (computeTextureMatrix s))) = 0.5)"
proof -
  have ex: "vx (TransformCoordinates (Vector3 0 0 500) (textureMatrix exampleLight)) = 0.5"
    "vy (TransformCoordinates (Vector3 0 0 500) (textureMatrix exampleLight)) = 0.5"
    "\<bar>vz (TransformCoordinates (Vector3 0 0 500) (textureMatrix exampleLight)) - 1\<bar>
       \<le> 1 / 1000"
    by (simp_all add: TransformCoordinates_def example_row)
  have "vx (TransformCoordinates (axisPoint s d) (textureMatrix (computeTextureMatrix s))) = 0.5
      \<and> vy (TransformCoordinates (axisPoint s d) (textureMatrix (computeTextureMatrix s))) = 0.5"
    if "spec_valid s" "light_near s \<le> d"
  proof -
    from that have "direction s \<noteq> Vector3 0 0 0" and "d \<noteq> 0"
      by (auto simp add: spec_valid_def)
    then show ?thesis using axisPoint_texture [of s d] by simp
  qed
  with ex show ?thesis by blast
qed

theorem axis_point_texture_centre_witness:
  "spec_valid exampleLight \<and> light_near exampleLight \<le> 500 \<and> 500 \<le> light_far exampleLight
   \<and> vx (TransformCoordinates (axisPoint exampleLight 500)
            (textureMatrix (computeTextureMatrix exampleLight))) = 0.5
   \<and> vy (TransformCoordinates (axisPoint exampleLight 500)
            (textureMatrix (computeTextureMatrix exampleLight))) = 0.5"
proof -
  have h: "spec_valid exampleLight \<and> light_near exampleLight \<le> 500
           \<and> 500 \<le> light_far exampleLight"
    by (simp add: spec_valid_def exampleLight_fields)
  from h axis_point_texture_centre [of exampleLight 500]
  show ?thesis by blast
qed

end
